theory Spec2Isabelle
  imports Main
begin

section \<open>Data model of \<^verbatim>\<open>src/index.tsx\<close>\<close>

text \<open>
  The program is a page script: two module variables hold the encoded uploads, a dozen DOM
  elements are read and written through their properties, and three kinds of asynchronous
  operation are started (two \<^verbatim>\<open>FileReader\<close> reads per upload, one call of the generation
  service per click). A page state records the module variables, the DOM properties the
  script touches, the console, the calls issued to the service, and the operations that
  are started and not yet finished. Every listener is a function from page states to page
  states; a listener that suspends at an \<^verbatim>\<open>await\<close> is two functions, the part before the
  suspension and the continuation.
\<close>

text \<open>\<^verbatim>\<open>'person' | 'outfit'\<close>, the second argument of \<^verbatim>\<open>handleFileUpload\<close>.\<close>

datatype upload_type = Person | Outfit

text \<open>
  A \<^verbatim>\<open>File\<close>: the script reads only \<^verbatim>\<open>file.type\<close>; the name tells files apart.
\<close>

record File =
  name :: string
  type :: string

text \<open>
  \<^verbatim>\<open>{ mimeType: string; data: string }\<close>, the value of a slot and the \<^verbatim>\<open>inlineData\<close> of a
  part. \<^verbatim>\<open>data\<close> is \<^verbatim>\<open>result.split(',')[1]\<close>, which is \<^verbatim>\<open>undefined\<close> (here \<open>None\<close>) when
  the data URL holds no comma.
\<close>

record inline_data =
  data :: "string option"
  mimeType :: string

text \<open>
  A part of a request or of a response: \<^verbatim>\<open>{ inlineData?: ..., text?: string }\<close>. The
  field \<^verbatim>\<open>text\<close> is \<open>text_of\<close> here, and \<^verbatim>\<open>content\<close>, \<^verbatim>\<open>config\<close> below are \<open>content_of\<close>,
  \<open>config_of\<close>.
\<close>

record part =
  inlineData :: "inline_data option"
  text_of :: "string option"

text \<open>
  \<^verbatim>\<open>{ parts?: [...] }\<close>, the \<^verbatim>\<open>contents\<close> of a request and the \<^verbatim>\<open>content\<close> of a candidate.
  A content of a response may come without parts, for instance with a role only.
\<close>

record content =
  parts :: "part list option"

record candidate =
  content_of :: "content option"

record response =
  candidates :: "candidate list option"

datatype modality = IMAGE | TEXT

record config =
  responseModalities :: "modality list"

text \<open>The argument of \<^verbatim>\<open>ai.models.generateContent\<close>.\<close>

record request =
  model :: string
  contents :: content
  config_of :: config

text \<open>
  A thrown value, as \<^verbatim>\<open>catch (e)\<close> receives it: what the service client throws, or the
  \<^verbatim>\<open>TypeError\<close> of a method call on \<^verbatim>\<open>undefined\<close>.
\<close>

datatype js_error = JsError string | TypeError

text \<open>How the promise returned by \<^verbatim>\<open>generateContent\<close> settles.\<close>

datatype outcome = Fulfilled response | Rejected js_error

record page =
  personFileData :: "inline_data option"
  outfitFileData :: "inline_data option"
  personUploadInput_files :: "File list option"
  outfitUploadInput_files :: "File list option"
  personDropZone_borderColor :: string
  outfitDropZone_borderColor :: string
  personDropZone_has_image :: bool
  outfitDropZone_has_image :: bool
  personPreview_src :: string
  outfitPreview_src :: string
  personPreview_visible :: bool
  outfitPreview_visible :: bool
  generateButton_disabled :: bool
  resultsSection_visible :: bool
  resultImage_src :: string
  resultImage_display :: string
  downloadButton_href :: string
  downloadButton_display :: string
  loader_display :: string
  errorContainer_textContent :: string
  errorContainer_display :: string
  console_error :: "js_error list"
  generateContent_calls :: "request list"
  readers :: "(File \<times> upload_type) list"
  part_readers :: "(File \<times> upload_type) list"
  in_flight :: nat

text \<open>
  \<open>console_error\<close> is what \<^verbatim>\<open>console.error\<close> has logged; \<open>generateContent_calls\<close> the
  requests handed to the service client, in order. \<open>readers\<close> are the reads started by
  \<^verbatim>\<open>handleFileUpload\<close> (line 70) that have not finished, \<open>part_readers\<close> those started by
  \<^verbatim>\<open>fileToGenerativePart\<close> (line 29), \<open>in_flight\<close> the number of service calls whose promise
  has not settled.
\<close>

section \<open>JavaScript primitives\<close>

text \<open>\<^verbatim>\<open>s.split(c)\<close> for a one-character separator: never empty, one more field than separators.\<close>

fun js_split :: "char \<Rightarrow> string \<Rightarrow> string list" where
  "js_split c [] = [[]]"
| "js_split c (x # xs) =
     (if x = c then [] # js_split c xs
      else (case js_split c xs of
              [] \<Rightarrow> [[x]]
            | w # ws \<Rightarrow> (x # w) # ws))"

text \<open>\<^verbatim>\<open>xs[i]\<close>: \<^verbatim>\<open>undefined\<close> out of range.\<close>

definition js_index :: "'a list \<Rightarrow> nat \<Rightarrow> 'a option" where
  "js_index xs i = (if i < length xs then Some (xs ! i) else None)"

text \<open>A \<^verbatim>\<open>string | undefined\<close> inside a template literal.\<close>

definition js_template :: "string option \<Rightarrow> string" where
  "js_template v = (case v of None \<Rightarrow> ''undefined'' | Some s \<Rightarrow> s)"

text \<open>Truthiness of a \<^verbatim>\<open>string | undefined\<close>: the empty string is falsy.\<close>

definition js_truthy :: "string option \<Rightarrow> bool" where
  "js_truthy v = (case v of None \<Rightarrow> False | Some s \<Rightarrow> s \<noteq> [])"

section \<open>Helper functions (lines 25-47)\<close>

text \<open>
  \<^verbatim>\<open>fileToGenerativePart\<close>, as a function of what the reader holds when \<^verbatim>\<open>onloadend\<close>
  fires: the data URL, or \<^verbatim>\<open>null\<close> (\<open>None\<close>) after a failed read. On \<^verbatim>\<open>null\<close> the callback
  throws at \<^verbatim>\<open>.split\<close>, \<^verbatim>\<open>resolve\<close> is never called and the promise stays pending: \<open>None\<close>.
\<close>

definition fileToGenerativePart :: "File \<Rightarrow> string option \<Rightarrow> part option" where
  "fileToGenerativePart f result =
     (case result of
        None \<Rightarrow> None
      | Some r \<Rightarrow>
          Some \<lparr>inlineData = Some \<lparr>data = js_index (js_split CHR '','' r) 1, mimeType = type f\<rparr>,
                text_of = None\<rparr>)"

definition updateGenerateButtonState :: "page \<Rightarrow> page" where
  "updateGenerateButtonState s =
     s\<lparr>generateButton_disabled := \<not> (personFileData s \<noteq> None \<and> outfitFileData s \<noteq> None)\<rparr>"

definition displayError :: "string \<Rightarrow> page \<Rightarrow> page" where
  "displayError message s =
     s\<lparr>errorContainer_textContent := message,
       errorContainer_display := ''block'',
       loader_display := ''none''\<rparr>"

section \<open>Upload handlers (lines 50-99)\<close>

text \<open>\<^verbatim>\<open>handleFileUpload\<close>, lines 50-53 and 70: return on \<^verbatim>\<open>null\<close>, else start a read.\<close>

definition handleFileUpload :: "File option \<Rightarrow> upload_type \<Rightarrow> page \<Rightarrow> page" where
  "handleFileUpload f t s =
     (case f of
        None \<Rightarrow> s
      | Some x \<Rightarrow> s\<lparr>readers := readers s @ [(x, t)]\<rparr>)"

text \<open>
  \<^verbatim>\<open>reader.onload\<close>, lines 55-62 up to the \<^verbatim>\<open>await\<close>: the preview is set from the data URL
  and \<^verbatim>\<open>fileToGenerativePart\<close> starts its own read of the same file.
\<close>

definition reader_onload :: "File \<Rightarrow> upload_type \<Rightarrow> string \<Rightarrow> page \<Rightarrow> page" where
  "reader_onload f t result s =
     (let s1 = (if t = Person
                then s\<lparr>personPreview_src := result,
                       personPreview_visible := True,
                       personDropZone_has_image := True\<rparr>
                else s\<lparr>outfitPreview_src := result,
                       outfitPreview_visible := True,
                       outfitDropZone_has_image := True\<rparr>)
      in s1\<lparr>part_readers := part_readers s1 @ [(f, t)]\<rparr>)"

text \<open>\<^verbatim>\<open>reader.onload\<close>, lines 62-68 after the \<^verbatim>\<open>await\<close>: the slot is assigned.\<close>

definition reader_onload_resume :: "upload_type \<Rightarrow> part \<Rightarrow> page \<Rightarrow> page" where
  "reader_onload_resume t p s =
     updateGenerateButtonState
       (if t = Person then s\<lparr>personFileData := inlineData p\<rparr>
        else s\<lparr>outfitFileData := inlineData p\<rparr>)"

text \<open>
  The end of the read started by \<^verbatim>\<open>fileToGenerativePart\<close>: when the promise resolves the
  handler resumes, otherwise it stays suspended for ever.
\<close>

definition part_reader_onloadend :: "File \<Rightarrow> upload_type \<Rightarrow> string option \<Rightarrow> page \<Rightarrow> page" where
  "part_reader_onloadend f t result s =
     (case fileToGenerativePart f result of
        None \<Rightarrow> s
      | Some p \<Rightarrow> reader_onload_resume t p s)"

text \<open>The \<^verbatim>\<open>change\<close> listeners, lines 73-74: \<^verbatim>\<open>input.files?.[0] ?? null\<close>.\<close>

definition change_listener :: "upload_type \<Rightarrow> page \<Rightarrow> page" where
  "change_listener t s =
     (let files = (if t = Person then personUploadInput_files s else outfitUploadInput_files s)
      in handleFileUpload (case files of None \<Rightarrow> None | Some fs \<Rightarrow> js_index fs 0) t s)"

text \<open>
  \<^verbatim>\<open>setupDragAndDrop\<close>, lines 78-96, for the two calls of lines 98-99, which pair each
  upload type with its own drop zone and input.
\<close>

definition set_borderColor :: "upload_type \<Rightarrow> string \<Rightarrow> page \<Rightarrow> page" where
  "set_borderColor t c s =
     (if t = Person then s\<lparr>personDropZone_borderColor := c\<rparr>
      else s\<lparr>outfitDropZone_borderColor := c\<rparr>)"

definition set_input_files :: "upload_type \<Rightarrow> File list \<Rightarrow> page \<Rightarrow> page" where
  "set_input_files t fs s =
     (if t = Person then s\<lparr>personUploadInput_files := Some fs\<rparr>
      else s\<lparr>outfitUploadInput_files := Some fs\<rparr>)"

definition dragover_listener :: "upload_type \<Rightarrow> page \<Rightarrow> page" where
  "dragover_listener t s = set_borderColor t ''#8e44ad'' s"

definition dragleave_listener :: "upload_type \<Rightarrow> page \<Rightarrow> page" where
  "dragleave_listener t s = set_borderColor t ''#444'' s"

text \<open>The argument is \<^verbatim>\<open>e.dataTransfer?.files\<close>.\<close>

definition drop_listener :: "upload_type \<Rightarrow> File list option \<Rightarrow> page \<Rightarrow> page" where
  "drop_listener t files s =
     (let s1 = set_borderColor t ''#444'' s
      in case files of
           None \<Rightarrow> s1
         | Some fs \<Rightarrow>
             if length fs > 0
             then handleFileUpload (Some (fs ! 0)) t (set_input_files t fs s1)
             else s1)"

section \<open>The generate button (lines 102-163)\<close>

text \<open>The template literal of lines 117-124, line breaks and indentation included.\<close>

definition prompt :: string where
  "prompt =
      ''\<newline>'' @
      ''      You are an expert virtual stylist. Your task is to perform a realistic virtual try-on.\<newline>'' @
      ''      1.  **Preserve Identity:** The person's face, hair, and skin tone from the first image must remain completely unchanged.\<newline>'' @
      ''      2.  **Replace Clothing:** Replace the clothing on the person in the first image with the complete outfit from the second image.\<newline>'' @
      ''      3.  **Realistic Fit & Shading:** The new outfit must fit the person's body realistically. Pay close attention to proportions, draping, and how the fabric would naturally fall. Add natural shadows and highlights to the new outfit to make it look like it's part of the scene's lighting.\<newline>'' @
      ''      4.  **New Background:** Generate a new, suitable background that complements the style of the new outfit. For example, a formal dress might get a backdrop of an elegant event, while a casual outfit might get a city street scene.\<newline>'' @
      ''      5.  **Output:** Return only the final, edited image. Do not return any text.\<newline>'' @
      ''    ''"

definition missing_input_message :: string where
  "missing_input_message = ''Please upload both a person and an outfit image.''"

definition no_image_message :: string where
  "no_image_message =
     ''Sorry, I couldn't generate an image. Please try again with different images.''"

definition exception_message :: string where
  "exception_message =
     ''An error occurred while generating the image. Please check the console for details.''"

text \<open>The request of lines 126-138, built from the two slots as they are at the click.\<close>

definition generate_request :: "inline_data \<Rightarrow> inline_data \<Rightarrow> request" where
  "generate_request person outfit =
     \<lparr>model = ''gemini-2.5-flash-image-preview'',
      contents = \<lparr>parts = Some [\<lparr>inlineData = Some person, text_of = None\<rparr>,
                                \<lparr>inlineData = Some outfit, text_of = None\<rparr>,
                                \<lparr>inlineData = None, text_of = Some prompt\<rparr>]\<rparr>,
      config_of = \<lparr>responseModalities = [IMAGE, TEXT]\<rparr>\<rparr>"

text \<open>
  The click listener, lines 103-138, up to the \<^verbatim>\<open>await\<close>: the guard, the reset of the
  interface, and the call of the service, which leaves one more promise pending.
\<close>

definition generate_click :: "page \<Rightarrow> page" where
  "generate_click s =
     (case personFileData s of
        None \<Rightarrow> displayError missing_input_message s
      | Some person \<Rightarrow>
          (case outfitFileData s of
             None \<Rightarrow> displayError missing_input_message s
           | Some outfit \<Rightarrow>
               s\<lparr>errorContainer_display := ''none'',
                 resultsSection_visible := True,
                 resultImage_display := ''none'',
                 downloadButton_display := ''none'',
                 loader_display := ''block'',
                 generateButton_disabled := True,
                 generateContent_calls :=
                   generateContent_calls s @ [generate_request person outfit],
                 in_flight := Suc (in_flight s)\<rparr>))"

text \<open>\<^verbatim>\<open>response.candidates?.[0]?.content\<close>: \<^verbatim>\<open>undefined\<close> as soon as one link is absent.\<close>

definition first_candidate_content :: "response \<Rightarrow> content option" where
  "first_candidate_content r =
     (case candidates r of
        None \<Rightarrow> None
      | Some cs \<Rightarrow>
          (case js_index cs 0 of
             None \<Rightarrow> None
           | Some c \<Rightarrow> content_of c))"

text \<open>
  \<^verbatim>\<open>response.candidates?.[0]?.content?.parts\<close>, the value on which lines 140 and 151 call
  \<^verbatim>\<open>.find\<close>.
\<close>

definition first_candidate_parts :: "response \<Rightarrow> part list option" where
  "first_candidate_parts r =
     (case first_candidate_content r of
        None \<Rightarrow> None
      | Some ct \<Rightarrow> parts ct)"

text \<open>
  \<^verbatim>\<open>response.candidates?.[0]?.content?.parts.find(pred)\<close>. Without a content the optional
  chain stops and the value is \<^verbatim>\<open>undefined\<close>. With a content, \<^verbatim>\<open>.find\<close> is called on its
  parts with no \<^verbatim>\<open>?.\<close> before it, and throws a \<^verbatim>\<open>TypeError\<close> when they are \<^verbatim>\<open>undefined\<close>.
\<close>

definition find_part :: "(part \<Rightarrow> bool) \<Rightarrow> response \<Rightarrow> js_error + part option" where
  "find_part pred r =
     (case first_candidate_content r of
        None \<Rightarrow> Inr None
      | Some ct \<Rightarrow>
          (case parts ct of
             None \<Rightarrow> Inl TypeError
           | Some ps \<Rightarrow> Inr (find pred ps)))"

text \<open>Line 140: \<^verbatim>\<open>...parts.find(part => part.inlineData)\<close>.\<close>

definition imagePart :: "response \<Rightarrow> js_error + part option" where
  "imagePart r = find_part (\<lambda>p. inlineData p \<noteq> None) r"

text \<open>Line 151: \<^verbatim>\<open>...parts.find(part => part.text)\<close>.\<close>

definition textPart :: "response \<Rightarrow> js_error + part option" where
  "textPart r = find_part (\<lambda>p. js_truthy (text_of p)) r"

text \<open>Line 152: \<^verbatim>\<open>textPart?.text || "Sorry, ..."\<close>, for the value of \<^verbatim>\<open>textPart\<close>.\<close>

definition errorMessage :: "part option \<Rightarrow> string" where
  "errorMessage tp =
     (case tp of
        None \<Rightarrow> no_image_message
      | Some p \<Rightarrow>
          (case text_of p of
             None \<Rightarrow> no_image_message
           | Some m \<Rightarrow> if m \<noteq> [] then m else no_image_message))"

text \<open>Line 144: the template literal that builds the data URI.\<close>

definition imageUrl :: "inline_data \<Rightarrow> string" where
  "imageUrl d = ''data:'' @ mimeType d @ '';base64,'' @ js_template (data d)"

text \<open>Lines 151-153, the \<^verbatim>\<open>else\<close> branch: \<open>Inl\<close> when it throws.\<close>

definition else_branch :: "response \<Rightarrow> page \<Rightarrow> js_error + page" where
  "else_branch r s =
     (case textPart r of
        Inl e \<Rightarrow> Inl e
      | Inr tp \<Rightarrow> Inr (displayError (errorMessage tp) s))"

text \<open>
  Lines 140-154, the rest of the \<^verbatim>\<open>try\<close> block once the response has arrived. It throws
  before it has changed anything, or it returns the page it has changed.
\<close>

definition try_block :: "response \<Rightarrow> page \<Rightarrow> js_error + page" where
  "try_block r s =
     (case imagePart r of
        Inl e \<Rightarrow> Inl e
      | Inr ip \<Rightarrow>
          (case ip of
             None \<Rightarrow> else_branch r s
           | Some p \<Rightarrow>
               (case inlineData p of
                  None \<Rightarrow> else_branch r s
                | Some d \<Rightarrow>
                    Inr (s\<lparr>resultImage_src := imageUrl d,
                           downloadButton_href := imageUrl d,
                           resultImage_display := ''block'',
                           downloadButton_display := ''inline-block''\<rparr>))))"

text \<open>Lines 156-158, the \<^verbatim>\<open>catch\<close> block.\<close>

definition catch_block :: "js_error \<Rightarrow> page \<Rightarrow> page" where
  "catch_block e s = displayError exception_message (s\<lparr>console_error := console_error s @ [e]\<rparr>)"

text \<open>Lines 159-162, the \<^verbatim>\<open>finally\<close> block.\<close>

definition finally_block :: "page \<Rightarrow> page" where
  "finally_block s = s\<lparr>loader_display := ''none'', generateButton_disabled := False\<rparr>"

text \<open>
  The click listener after the \<^verbatim>\<open>await\<close> of line 126: the promise has settled, the
  handler resumes in the \<^verbatim>\<open>try\<close> block, goes to the \<^verbatim>\<open>catch\<close> block when the call or the
  \<^verbatim>\<open>try\<close> block has thrown, then runs \<^verbatim>\<open>finally\<close>.
\<close>

definition generate_resume :: "outcome \<Rightarrow> page \<Rightarrow> page" where
  "generate_resume out s =
     finally_block
       (case out of
          Fulfilled r \<Rightarrow>
            (case try_block r (s\<lparr>in_flight := in_flight s - 1\<rparr>) of
               Inl e \<Rightarrow> catch_block e (s\<lparr>in_flight := in_flight s - 1\<rparr>)
             | Inr s' \<Rightarrow> s')
        | Rejected e \<Rightarrow> catch_block e (s\<lparr>in_flight := in_flight s - 1\<rparr>))"

section \<open>Events of a page session\<close>

text \<open>
  What can happen to the page, one listener or continuation at a time. A \<open>Change\<close> event
  carries the selection the browser has stored in the input before the listener runs. A
  read started by \<^verbatim>\<open>handleFileUpload\<close> ends with \<open>ReaderLoad\<close> (the data URL) or with
  \<open>ReaderError\<close>, for which no listener is registered. A read started by
  \<^verbatim>\<open>fileToGenerativePart\<close> ends with \<open>PartReaderLoadEnd\<close>. \<open>Settled\<close> is the end of a
  service call.
\<close>

datatype event =
    Change upload_type "File list option"
  | DragOver upload_type
  | DragLeave upload_type
  | Drop upload_type "File list option"
  | ReaderLoad File upload_type string
  | ReaderError File upload_type
  | PartReaderLoadEnd File upload_type "string option"
  | Click
  | Settled outcome

text \<open>
  One event; \<open>None\<close> when the event cannot happen in this state, because the operation it
  ends was never started.
\<close>

fun step :: "event \<Rightarrow> page \<Rightarrow> page option" where
  "step (Change t files) s =
     Some (change_listener t
             (if t = Person then s\<lparr>personUploadInput_files := files\<rparr>
              else s\<lparr>outfitUploadInput_files := files\<rparr>))"
| "step (DragOver t) s = Some (dragover_listener t s)"
| "step (DragLeave t) s = Some (dragleave_listener t s)"
| "step (Drop t files) s = Some (drop_listener t files s)"
| "step (ReaderLoad f t result) s =
     (if (f, t) \<in> set (readers s)
      then Some (reader_onload f t result (s\<lparr>readers := remove1 (f, t) (readers s)\<rparr>))
      else None)"
| "step (ReaderError f t) s =
     (if (f, t) \<in> set (readers s)
      then Some (s\<lparr>readers := remove1 (f, t) (readers s)\<rparr>)
      else None)"
| "step (PartReaderLoadEnd f t result) s =
     (if (f, t) \<in> set (part_readers s)
      then Some (part_reader_onloadend f t result
                   (s\<lparr>part_readers := remove1 (f, t) (part_readers s)\<rparr>))
      else None)"
| "step Click s = Some (generate_click s)"
| "step (Settled out) s =
     (if in_flight s > 0 then Some (generate_resume out s) else None)"

fun run :: "event list \<Rightarrow> page \<Rightarrow> page option" where
  "run [] s = Some s"
| "run (e # es) s = (case step e s of None \<Rightarrow> None | Some s' \<Rightarrow> run es s')"

text \<open>The events that end a service call.\<close>

fun settled_event :: "event \<Rightarrow> bool" where
  "settled_event (Settled out) = True"
| "settled_event e = False"

text \<open>Result image and download link are both hidden.\<close>

definition result_hidden :: "page \<Rightarrow> bool" where
  "result_hidden s \<longleftrightarrow> resultImage_display s = ''none'' \<and> downloadButton_display s = ''none''"

text \<open>
  A freshly loaded page, as far as the script fixes it: both slots \<^verbatim>\<open>null\<close> (lines 19-20) and
  nothing started. That the button starts disabled is the page markup's part, which the
  script relies on.
\<close>

definition page_loaded :: "page \<Rightarrow> bool" where
  "page_loaded s \<longleftrightarrow>
     personFileData s = None \<and> outfitFileData s = None \<and> generateButton_disabled s \<and>
     readers s = [] \<and> part_readers s = [] \<and> in_flight s = 0 \<and>
     generateContent_calls s = []"

definition both_populated :: "page \<Rightarrow> bool" where
  "both_populated s \<longleftrightarrow> personFileData s \<noteq> None \<and> outfitFileData s \<noteq> None"

text \<open>An empty page for concrete runs.\<close>

definition empty_page :: page where
  "empty_page =
     \<lparr>personFileData = None, outfitFileData = None,
      personUploadInput_files = None, outfitUploadInput_files = None,
      personDropZone_borderColor = [], outfitDropZone_borderColor = [],
      personDropZone_has_image = False, outfitDropZone_has_image = False,
      personPreview_src = [], outfitPreview_src = [],
      personPreview_visible = False, outfitPreview_visible = False,
      generateButton_disabled = True, resultsSection_visible = False,
      resultImage_src = [], resultImage_display = [],
      downloadButton_href = [], downloadButton_display = [],
      loader_display = [], errorContainer_textContent = [], errorContainer_display = [],
      console_error = [], generateContent_calls = [],
      readers = [], part_readers = [], in_flight = 0\<rparr>"

text \<open>
  The trigger is usable or a call is pending only while both slots are filled; that a
  pending call needs both slots is what keeps this true across the \<^verbatim>\<open>finally\<close> block, which
  enables the button without looking at the slots. And with both slots filled the trigger
  is usable unless a call is pending.
\<close>

definition trigger_invariant :: "page \<Rightarrow> bool" where
  "trigger_invariant s \<longleftrightarrow>
     (\<not> generateButton_disabled s \<or> in_flight s > 0 \<longrightarrow> both_populated s) \<and>
     (both_populated s \<and> in_flight s = 0 \<longrightarrow> \<not> generateButton_disabled s)"

text \<open>A concrete session: a photo chosen in the picker, two files dropped on the outfit zone.\<close>

definition photo :: File where
  "photo = \<lparr>name = ''me.png'', type = ''image/png''\<rparr>"

definition dress :: File where
  "dress = \<lparr>name = ''dress.jpg'', type = ''image/jpeg''\<rparr>"

definition both_uploaded :: "event list" where
  "both_uploaded =
     [Change Person (Some [photo]),
      ReaderLoad photo Person ''data:image/png;base64,QUJD'',
      PartReaderLoadEnd photo Person (Some ''data:image/png;base64,QUJD''),
      Drop Outfit (Some [dress, photo]),
      ReaderLoad dress Outfit ''data:image/jpeg;base64,REVG'',
      PartReaderLoadEnd dress Outfit (Some ''data:image/jpeg;base64,REVG'')]"

text \<open>Service responses for concrete runs: a text and an image; texts only.\<close>

definition png_response :: response where
  "png_response =
     \<lparr>candidates = Some [\<lparr>content_of = Some \<lparr>parts = Some
        [\<lparr>inlineData = None, text_of = Some ''Here is your image''\<rparr>,
         \<lparr>inlineData = Some \<lparr>data = Some ''ABC'', mimeType = ''image/png''\<rparr>,
          text_of = None\<rparr>]\<rparr>\<rparr>]\<rparr>"

definition text_response :: "string list \<Rightarrow> response" where
  "text_response ms =
     \<lparr>candidates = Some [\<lparr>content_of = Some \<lparr>parts =
        Some (map (\<lambda>m. \<lparr>inlineData = None, text_of = Some m\<rparr>) ms)\<rparr>\<rparr>]\<rparr>"

text \<open>A response whose first candidate has a content without parts.\<close>

definition partless_response :: response where
  "partless_response = \<lparr>candidates = Some [\<lparr>content_of = Some \<lparr>parts = None\<rparr>\<rparr>]\<rparr>"

text \<open>
  Two attempts in flight at once: an upload that completes while the first call is
  pending enables the trigger again (line 68), and a second click starts a second call.
\<close>

definition overlapping_attempts :: "event list" where
  "overlapping_attempts =
     both_uploaded @
     [Click,
      Change Person (Some [photo]),
      ReaderLoad photo Person ''data:image/png;base64,QUJD'',
      PartReaderLoadEnd photo Person (Some ''data:image/png;base64,QUJD''),
      Click,
      Settled (Fulfilled png_response),
      Settled (Fulfilled (text_response [''Cannot process'']))]"

section \<open>Auxiliary facts\<close>

lemmas listener_defs =
  change_listener_def handleFileUpload_def reader_onload_def part_reader_onloadend_def
  fileToGenerativePart_def reader_onload_resume_def updateGenerateButtonState_def
  drop_listener_def dragover_listener_def dragleave_listener_def set_borderColor_def
  set_input_files_def js_index_def generate_click_def displayError_def

lemmas session_defs = both_uploaded_def empty_page_def photo_def dress_def

lemmas resume_defs =
  generate_resume_def try_block_def else_branch_def catch_block_def finally_block_def

lemmas response_defs =
  imagePart_def textPart_def find_part_def first_candidate_content_def
  first_candidate_parts_def errorMessage_def

lemma handleFileUpload_frame:
  "personFileData (handleFileUpload f t s) = personFileData s"
  "outfitFileData (handleFileUpload f t s) = outfitFileData s"
  "generateButton_disabled (handleFileUpload f t s) = generateButton_disabled s"
  "in_flight (handleFileUpload f t s) = in_flight s"
  by (simp_all add: handleFileUpload_def split: option.splits)

lemma step_trigger_invariant:
  assumes "trigger_invariant s" and "step e s = Some s'"
  shows "trigger_invariant s'"
proof (cases e)
  case (Change t files)
  with assms show ?thesis
    by (auto simp: trigger_invariant_def both_populated_def change_listener_def Let_def
        handleFileUpload_frame split: if_splits)
next
  case (DragOver t)
  with assms show ?thesis
    by (auto simp: trigger_invariant_def both_populated_def dragover_listener_def
        set_borderColor_def split: if_splits)
next
  case (DragLeave t)
  with assms show ?thesis
    by (auto simp: trigger_invariant_def both_populated_def dragleave_listener_def
        set_borderColor_def split: if_splits)
next
  case (Drop t files)
  with assms show ?thesis
    by (auto simp: trigger_invariant_def both_populated_def drop_listener_def Let_def
        set_borderColor_def set_input_files_def handleFileUpload_frame
        split: if_splits option.splits)
next
  case (ReaderLoad f t result)
  with assms show ?thesis
    by (auto simp: trigger_invariant_def both_populated_def reader_onload_def Let_def
        split: if_splits)
next
  case (ReaderError f t)
  with assms show ?thesis
    by (auto simp: trigger_invariant_def both_populated_def split: if_splits)
next
  case (PartReaderLoadEnd f t result)
  with assms show ?thesis
    by (auto simp: trigger_invariant_def both_populated_def part_reader_onloadend_def
        reader_onload_resume_def updateGenerateButtonState_def fileToGenerativePart_def
        split: if_splits option.splits)
next
  case Click
  with assms show ?thesis
    by (auto simp: trigger_invariant_def both_populated_def generate_click_def displayError_def
        split: if_splits option.splits)
next
  case (Settled out)
  with assms show ?thesis
    by (auto simp: trigger_invariant_def both_populated_def resume_defs displayError_def
        split: if_splits option.splits outcome.splits sum.splits)
qed

lemma run_trigger_invariant:
  "trigger_invariant s \<Longrightarrow> run es s = Some s' \<Longrightarrow> trigger_invariant s'"
proof (induction es arbitrary: s)
  case Nil
  then show ?case by simp
next
  case (Cons e es)
  then show ?case
    by (auto split: option.splits dest: step_trigger_invariant)
qed

lemma step_result_hidden:
  assumes "result_hidden s" and "\<not> settled_event e" and "step e s = Some s'"
  shows "result_hidden s'"
  using assms
  by (cases e)
     (auto simp: result_hidden_def listener_defs Let_def split: if_splits option.splits)

lemma run_result_hidden:
  "result_hidden s \<Longrightarrow> \<forall>e \<in> set es. \<not> settled_event e \<Longrightarrow> run es s = Some s' \<Longrightarrow>
     result_hidden s'"
proof (induction es arbitrary: s)
  case Nil
  then show ?case by simp
next
  case (Cons e es)
  from Cons.prems obtain s1 where s1: "step e s = Some s1" and r: "run es s1 = Some s'"
    by (auto split: option.splits)
  from Cons.prems have "\<not> settled_event e" and rest: "\<forall>x \<in> set es. \<not> settled_event x"
    by simp_all
  with Cons.prems(1) s1 have "result_hidden s1"
    using step_result_hidden by blast
  from Cons.IH [OF this rest r] show ?case .
qed

lemma generate_click_hidden: "both_populated s \<Longrightarrow> result_hidden (generate_click s)"
  by (auto simp: both_populated_def generate_click_def result_hidden_def)

lemma resume_no_image:
  assumes "imagePart r = Inr None"
  shows "generate_resume (Fulfilled r) s =
     finally_block
       (displayError
          (errorMessage (case first_candidate_parts r of
                           None \<Rightarrow> None
                         | Some ps \<Rightarrow> find (\<lambda>p. js_truthy (text_of p)) ps))
          (s\<lparr>in_flight := in_flight s - 1\<rparr>))"
proof -
  from assms have "textPart r =
      Inr (case first_candidate_parts r of
             None \<Rightarrow> None
           | Some ps \<Rightarrow> find (\<lambda>p. js_truthy (text_of p)) ps)"
    by (auto simp: imagePart_def textPart_def find_part_def first_candidate_parts_def
        split: option.splits)
  with assms show ?thesis
    by (simp add: generate_resume_def try_block_def else_branch_def)
qed

lemma resume_thrown:
  "imagePart r = Inl e \<Longrightarrow>
     generate_resume (Fulfilled r) s =
       finally_block (catch_block e (s\<lparr>in_flight := in_flight s - 1\<rparr>))"
  by (simp add: generate_resume_def try_block_def)

lemma find_skip_prefix:
  "\<forall>q \<in> set pre. \<not> P q \<Longrightarrow> P p \<Longrightarrow> find P (pre @ p # post) = Some p"
  by (induction pre) simp_all

lemma find_all_rejected: "\<forall>q \<in> set ps. \<not> P q \<Longrightarrow> find P ps = None"
  by (induction ps) simp_all

section \<open>C1: when the generate trigger is enabled\<close>

text \<open>
  C1, as stated, fails in a reachable state. After both uploads have completed and the
  button has been clicked, both slots hold an image and the trigger is disabled (line 114),
  so "enabled if and only if both slots are non-null" does not hold in every state.
\<close>

theorem C1_counterexample:
  "run (both_uploaded @ [Click]) empty_page \<noteq> None \<and>
   both_populated (the (run (both_uploaded @ [Click]) empty_page)) \<and>
   generateButton_disabled (the (run (both_uploaded @ [Click]) empty_page))"
  by (simp add: session_defs listener_defs Let_def both_populated_def)

text \<open>
  C1, amended. In every state a session reaches from a freshly loaded page (both slots
  null, button disabled, nothing pending), by any sequence of events, an enabled trigger
  implies that both slots hold an image: with at most one slot filled the trigger is
  disabled. In every such state in which no service call is pending, the trigger is
  enabled if and only if both slots hold an image. Right after an upload completes, in any
  state, the trigger is enabled if and only if both slots hold an image.
\<close>

theorem C1_trigger_enabled_only_when_both_populated:
  "(page_loaded s0 \<and> run es s0 = Some s \<and> \<not> generateButton_disabled s \<longrightarrow> both_populated s) \<and>
   (page_loaded s0 \<and> run es s0 = Some s \<and> in_flight s = 0 \<longrightarrow>
      (\<not> generateButton_disabled s \<longleftrightarrow> both_populated s)) \<and>
   (\<not> generateButton_disabled (part_reader_onloadend f t (Some r) s1) \<longleftrightarrow>
      both_populated (part_reader_onloadend f t (Some r) s1))"
proof -
  have inv: "trigger_invariant s" if "page_loaded s0" and "run es s0 = Some s"
  proof -
    from that(1) have "trigger_invariant s0"
      by (simp add: page_loaded_def trigger_invariant_def both_populated_def)
    with that(2) show ?thesis
      using run_trigger_invariant by blast
  qed
  have a: "page_loaded s0 \<and> run es s0 = Some s \<and> \<not> generateButton_disabled s \<longrightarrow>
      both_populated s"
    using inv by (auto simp: trigger_invariant_def)
  have b: "page_loaded s0 \<and> run es s0 = Some s \<and> in_flight s = 0 \<longrightarrow>
      (\<not> generateButton_disabled s \<longleftrightarrow> both_populated s)"
    using inv by (auto simp: trigger_invariant_def)
  have c: "\<not> generateButton_disabled (part_reader_onloadend f t (Some r) s1) \<longleftrightarrow>
      both_populated (part_reader_onloadend f t (Some r) s1)"
    by (simp add: part_reader_onloadend_def fileToGenerativePart_def reader_onload_resume_def
        updateGenerateButtonState_def both_populated_def)
  from a b c show ?thesis by blast
qed

text \<open>
  The session of two uploads, a click and a failed service call ends with no call pending
  and the trigger enabled, and both slots are filled.
\<close>

theorem C1_witness:
  "page_loaded empty_page \<and>
   run (both_uploaded @ [Click, Settled (Rejected (JsError ''offline''))]) empty_page \<noteq> None \<and>
   in_flight
       (the (run (both_uploaded @ [Click, Settled (Rejected (JsError ''offline''))]) empty_page))
     = 0 \<and>
   \<not> generateButton_disabled
       (the (run (both_uploaded @ [Click, Settled (Rejected (JsError ''offline''))]) empty_page)) \<and>
   both_populated
       (the (run (both_uploaded @ [Click, Settled (Rejected (JsError ''offline''))]) empty_page))"
proof -
  let ?es = "both_uploaded @ [Click, Settled (Rejected (JsError ''offline''))]"
  have l: "page_loaded empty_page"
    by (simp add: page_loaded_def empty_page_def)
  have r: "run ?es empty_page \<noteq> None"
    by (simp add: session_defs listener_defs resume_defs Let_def)
  then have r': "run ?es empty_page = Some (the (run ?es empty_page))"
    by simp
  have e: "\<not> generateButton_disabled (the (run ?es empty_page))"
    by (simp add: session_defs listener_defs resume_defs Let_def)
  have n: "in_flight (the (run ?es empty_page)) = 0"
    by (simp add: session_defs listener_defs resume_defs Let_def)
  note c1 = C1_trigger_enabled_only_when_both_populated
              [of empty_page ?es "the (run ?es empty_page)"]
  from c1 [THEN conjunct1] l r' e
  have p: "both_populated (the (run ?es empty_page))" by blast
  from c1 [THEN conjunct2, THEN conjunct1] l r' n
  have "\<not> generateButton_disabled (the (run ?es empty_page)) \<longleftrightarrow>
      both_populated (the (run ?es empty_page))" by blast
  with l r e n p show ?thesis by blast
qed

section \<open>C2: a click with a slot missing\<close>

text \<open>
  C2. When the button's listener runs with at least one slot null, it shows the message
  "Please upload both a person and an outfit image." in the error container and returns:
  no request is added to the calls issued to the service, no call is left pending, and both
  slots are as before.
\<close>

theorem C2_missing_input_aborts:
  assumes "personFileData s = None \<or> outfitFileData s = None"
  shows "errorContainer_textContent (generate_click s) =
           ''Please upload both a person and an outfit image.'' \<and>
         errorContainer_display (generate_click s) = ''block'' \<and>
         generateContent_calls (generate_click s) = generateContent_calls s \<and>
         in_flight (generate_click s) = in_flight s \<and>
         personFileData (generate_click s) = personFileData s \<and>
         outfitFileData (generate_click s) = outfitFileData s"
  using assms
  by (auto simp: generate_click_def displayError_def missing_input_message_def
      split: option.splits)

text \<open>After the photo alone is uploaded, a click reports the missing input and calls nothing.\<close>

theorem C2_witness:
  "(personFileData (the (run (take 3 both_uploaded) empty_page)) = None \<or>
    outfitFileData (the (run (take 3 both_uploaded) empty_page)) = None) \<and>
   personFileData (the (run (take 3 both_uploaded) empty_page)) \<noteq> None \<and>
   errorContainer_textContent (generate_click (the (run (take 3 both_uploaded) empty_page))) =
     ''Please upload both a person and an outfit image.'' \<and>
   generateContent_calls (generate_click (the (run (take 3 both_uploaded) empty_page))) = []"
proof -
  let ?s = "the (run (take 3 both_uploaded) empty_page)"
  have o: "outfitFileData ?s = None"
    by (simp add: session_defs listener_defs Let_def)
  have p: "personFileData ?s \<noteq> None"
    by (simp add: session_defs listener_defs Let_def)
  have c: "generateContent_calls ?s = []"
    by (simp add: session_defs listener_defs Let_def)
  from o have "personFileData ?s = None \<or> outfitFileData ?s = None" by simp
  from C2_missing_input_aborts [OF this] o p c show ?thesis by simp
qed

section \<open>C3: a response with an image\<close>

text \<open>
  C3. When the parts of the response's first candidate hold a part with inline data, the
  first such part is the result whatever texts come with it: with media type \<open>mimeType d\<close>
  and content \<open>c\<close>, the source of the result image and the target of the download link
  are both \<open>data:\<close> followed by the media type, \<open>;base64,\<close> and the content; the image is
  displayed as \<open>block\<close>, the link as \<open>inline-block\<close>, and the error container is not
  touched.
\<close>

theorem C3_image_payload_is_result:
  assumes "first_candidate_parts r = Some ps"
    and "find (\<lambda>p. inlineData p \<noteq> None) ps = Some p"
    and "inlineData p = Some d"
    and "data d = Some c"
  shows "resultImage_src (generate_resume (Fulfilled r) s) =
           ''data:'' @ mimeType d @ '';base64,'' @ c \<and>
         downloadButton_href (generate_resume (Fulfilled r) s) =
           ''data:'' @ mimeType d @ '';base64,'' @ c \<and>
         resultImage_display (generate_resume (Fulfilled r) s) = ''block'' \<and>
         downloadButton_display (generate_resume (Fulfilled r) s) = ''inline-block'' \<and>
         errorContainer_textContent (generate_resume (Fulfilled r) s) =
           errorContainer_textContent s \<and>
         errorContainer_display (generate_resume (Fulfilled r) s) = errorContainer_display s"
proof -
  from assms(1) obtain ct where "first_candidate_content r = Some ct" and "parts ct = Some ps"
    by (auto simp: first_candidate_parts_def split: option.splits)
  with assms(2) have "imagePart r = Inr (Some p)"
    by (simp add: imagePart_def find_part_def)
  with assms(3,4) show ?thesis
    by (simp add: resume_defs imageUrl_def js_template_def)
qed

text \<open>
  A text followed by an image of type \<open>image/png\<close> with content \<open>ABC\<close>: the link is
  \<open>data:image/png;base64,ABC\<close>.
\<close>

theorem C3_witness:
  "first_candidate_parts png_response =
     Some [\<lparr>inlineData = None, text_of = Some ''Here is your image''\<rparr>,
           \<lparr>inlineData = Some \<lparr>data = Some ''ABC'', mimeType = ''image/png''\<rparr>,
            text_of = None\<rparr>] \<and>
   resultImage_src (generate_resume (Fulfilled png_response) empty_page) =
     ''data:image/png;base64,ABC'' \<and>
   downloadButton_href (generate_resume (Fulfilled png_response) empty_page) =
     ''data:image/png;base64,ABC'' \<and>
   resultImage_display (generate_resume (Fulfilled png_response) empty_page) = ''block'' \<and>
   downloadButton_display (generate_resume (Fulfilled png_response) empty_page) =
     ''inline-block''"
proof -
  let ?img = "\<lparr>data = Some ''ABC'', mimeType = ''image/png''\<rparr>"
  let ?p = "\<lparr>inlineData = Some ?img, text_of = None\<rparr>"
  let ?ps = "[\<lparr>inlineData = None, text_of = Some ''Here is your image''\<rparr>, ?p]"
  have a: "first_candidate_parts png_response = Some ?ps"
    by (simp add: png_response_def first_candidate_parts_def first_candidate_content_def
        js_index_def)
  have b: "find (\<lambda>p. inlineData p \<noteq> None) ?ps = Some ?p" by simp
  have c: "inlineData ?p = Some ?img" by simp
  have d: "data ?img = Some ''ABC''" by simp
  from C3_image_payload_is_result [OF a b c d, of empty_page] a show ?thesis by simp
qed

section \<open>C4: a response without an image\<close>

text \<open>
  C4, as stated, fails in three ways. Line 151 looks for a part whose text is truthy, so an
  empty text is passed over: for a response whose parts are an empty text and the text
  "Cannot process", the first text payload is empty and the message shown is the second
  one. A first candidate whose content has no parts holds no image and no text, yet the
  message shown is not the generic one: \<^verbatim>\<open>.find\<close> throws at line 140 and the \<^verbatim>\<open>catch\<close> block
  shows its own message and logs the error. And the handler does not hide the result
  image, it only leaves it alone: when two attempts overlap and the first answer is an
  image, the text answer of the second is shown beside an image and a download link that
  are visible.
\<close>

theorem C4_counterexample:
  "imagePart (text_response ['''', ''Cannot process'']) = Inr None \<and>
   text_of (hd (the (first_candidate_parts (text_response ['''', ''Cannot process''])))) =
     Some '''' \<and>
   errorContainer_textContent
     (generate_resume (Fulfilled (text_response ['''', ''Cannot process''])) empty_page) =
     ''Cannot process'' \<and>
   first_candidate_parts partless_response = None \<and>
   errorContainer_textContent (generate_resume (Fulfilled partless_response) empty_page) =
     ''An error occurred while generating the image. Please check the console for details.'' \<and>
   console_error (generate_resume (Fulfilled partless_response) empty_page) = [TypeError] \<and>
   run overlapping_attempts empty_page \<noteq> None \<and>
   errorContainer_textContent (the (run overlapping_attempts empty_page)) =
     ''Cannot process'' \<and>
   resultImage_display (the (run overlapping_attempts empty_page)) = ''block'' \<and>
   downloadButton_display (the (run overlapping_attempts empty_page)) = ''inline-block''"
  by (simp add: overlapping_attempts_def session_defs listener_defs resume_defs response_defs
      Let_def png_response_def text_response_def partless_response_def js_truthy_def
      imageUrl_def js_template_def generate_request_def exception_message_def)

text \<open>
  C4, amended. For every response whose first candidate holds no image payload: when the
  first candidate has a content without a parts list, the handler throws on it, shows the
  message of the \<^verbatim>\<open>catch\<close> block ("An error occurred while generating the image. Please
  check the console for details.") and logs the error; otherwise the message shown is the
  text of the first part whose text is present and not empty, when there is one, and the
  fixed message "Sorry, I couldn't generate an image. Please try again with different
  images." when candidates, first candidate or content are absent or no part has a
  non-empty text. In every case the error container is shown and the handler leaves the
  result image and the download link as they were: they remain hidden whenever no service
  call has settled between the click of this attempt, made with both slots filled, and
  its response.
\<close>

theorem C4_no_image_shows_text_or_generic:
  "(imagePart r = Inr None \<and> first_candidate_parts r = Some (pre @ p # post) \<and>
      (\<forall>q \<in> set pre. text_of q = None \<or> text_of q = Some []) \<and>
      text_of p = Some m \<and> m \<noteq> [] \<longrightarrow>
    errorContainer_textContent (generate_resume (Fulfilled r) s) = m) \<and>
   (imagePart r = Inr None \<and>
      (\<forall>ps. first_candidate_parts r = Some ps \<longrightarrow>
         (\<forall>q \<in> set ps. text_of q = None \<or> text_of q = Some [])) \<longrightarrow>
    errorContainer_textContent (generate_resume (Fulfilled r) s) =
      ''Sorry, I couldn't generate an image. Please try again with different images.'') \<and>
   (first_candidate_content r = Some ct \<and> parts ct = None \<longrightarrow>
    imagePart r = Inl TypeError \<and>
    errorContainer_textContent (generate_resume (Fulfilled r) s) =
      ''An error occurred while generating the image. Please check the console for details.'' \<and>
    console_error (generate_resume (Fulfilled r) s) = console_error s @ [TypeError]) \<and>
   (imagePart r = Inr None \<or> imagePart r = Inl TypeError \<longrightarrow>
    errorContainer_display (generate_resume (Fulfilled r) s) = ''block'' \<and>
    resultImage_display (generate_resume (Fulfilled r) s) = resultImage_display s \<and>
    downloadButton_display (generate_resume (Fulfilled r) s) = downloadButton_display s) \<and>
   ((imagePart r = Inr None \<or> imagePart r = Inl TypeError) \<and>
      both_populated s0 \<and> (\<forall>e \<in> set es. \<not> settled_event e) \<and>
      run es (generate_click s0) = Some s \<longrightarrow>
    resultImage_display (generate_resume (Fulfilled r) s) = ''none'' \<and>
    downloadButton_display (generate_resume (Fulfilled r) s) = ''none'')"
proof -
  let ?tp = "case first_candidate_parts r of
               None \<Rightarrow> None
             | Some ps \<Rightarrow> find (\<lambda>p. js_truthy (text_of p)) ps"
  have msg: "errorContainer_textContent (generate_resume (Fulfilled r) s) = errorMessage ?tp"
    if "imagePart r = Inr None"
    by (simp add: resume_no_image [OF that] finally_block_def displayError_def)
  have first: "errorContainer_textContent (generate_resume (Fulfilled r) s) = m"
    if "imagePart r = Inr None" and "first_candidate_parts r = Some (pre @ p # post)"
      and "\<forall>q \<in> set pre. text_of q = None \<or> text_of q = Some []"
      and "text_of p = Some m" and "m \<noteq> []"
  proof -
    from that have "find (\<lambda>p. js_truthy (text_of p)) (pre @ p # post) = Some p"
      by (intro find_skip_prefix) (auto simp: js_truthy_def)
    with that show ?thesis
      by (simp add: msg errorMessage_def)
  qed
  have generic: "errorContainer_textContent (generate_resume (Fulfilled r) s) =
      no_image_message"
    if "imagePart r = Inr None"
      and "\<forall>ps. first_candidate_parts r = Some ps \<longrightarrow>
          (\<forall>q \<in> set ps. text_of q = None \<or> text_of q = Some [])"
  proof (cases "first_candidate_parts r")
    case None
    with that(1) show ?thesis by (simp add: msg errorMessage_def)
  next
    case (Some ps)
    with that(2) have "find (\<lambda>p. js_truthy (text_of p)) ps = None"
      by (intro find_all_rejected) (auto simp: js_truthy_def)
    with Some that(1) show ?thesis by (simp add: msg errorMessage_def)
  qed
  have thrown: "imagePart r = Inl TypeError \<and>
      errorContainer_textContent (generate_resume (Fulfilled r) s) = exception_message \<and>
      console_error (generate_resume (Fulfilled r) s) = console_error s @ [TypeError]"
    if "first_candidate_content r = Some ct" and "parts ct = None"
  proof -
    from that have "imagePart r = Inl TypeError"
      by (simp add: imagePart_def find_part_def)
    then show ?thesis
      by (simp add: resume_thrown finally_block_def catch_block_def displayError_def)
  qed
  have frame: "errorContainer_display (generate_resume (Fulfilled r) s) = ''block'' \<and>
      resultImage_display (generate_resume (Fulfilled r) s) = resultImage_display s \<and>
      downloadButton_display (generate_resume (Fulfilled r) s) = downloadButton_display s"
    if "imagePart r = Inr None \<or> imagePart r = Inl TypeError"
    using that
    by (auto simp: resume_no_image resume_thrown finally_block_def catch_block_def
        displayError_def)
  have hidden: "resultImage_display (generate_resume (Fulfilled r) s) = ''none'' \<and>
      downloadButton_display (generate_resume (Fulfilled r) s) = ''none''"
    if "imagePart r = Inr None \<or> imagePart r = Inl TypeError"
      and "both_populated s0" and "\<forall>e \<in> set es. \<not> settled_event e"
      and "run es (generate_click s0) = Some s"
  proof -
    from run_result_hidden [OF generate_click_hidden [OF that(2)] that(3) that(4)]
    have "result_hidden s" .
    with frame [OF that(1)] show ?thesis by (simp add: result_hidden_def)
  qed
  from first generic thrown frame hidden show ?thesis
    by (simp add: no_image_message_def exception_message_def)
qed

text \<open>
  Both slots filled, a click, then a drag over the person zone and a second click while
  the call is pending. The response with the one text "Cannot process" shows that text and
  leaves image and link hidden; the response whose list of parts is empty shows the
  generic message; the response whose content has no list of parts shows the message of
  the \<^verbatim>\<open>catch\<close> block.
\<close>

theorem C4_witness:
  "both_populated (the (run both_uploaded empty_page)) \<and>
   run [Click, DragOver Person, Click] (the (run both_uploaded empty_page)) \<noteq> None \<and>
   imagePart (text_response [''Cannot process'']) = Inr None \<and>
   errorContainer_textContent
     (generate_resume (Fulfilled (text_response [''Cannot process'']))
        (the (run [Click, DragOver Person, Click] (the (run both_uploaded empty_page))))) =
     ''Cannot process'' \<and>
   resultImage_display
     (generate_resume (Fulfilled (text_response [''Cannot process'']))
        (the (run [Click, DragOver Person, Click] (the (run both_uploaded empty_page))))) =
     ''none'' \<and>
   downloadButton_display
     (generate_resume (Fulfilled (text_response [''Cannot process'']))
        (the (run [Click, DragOver Person, Click] (the (run both_uploaded empty_page))))) =
     ''none'' \<and>
   imagePart (text_response []) = Inr None \<and>
   errorContainer_textContent
     (generate_resume (Fulfilled (text_response []))
        (the (run [Click, DragOver Person, Click] (the (run both_uploaded empty_page))))) =
     ''Sorry, I couldn't generate an image. Please try again with different images.'' \<and>
   first_candidate_content partless_response = Some \<lparr>parts = None\<rparr> \<and>
   errorContainer_textContent
     (generate_resume (Fulfilled partless_response)
        (the (run [Click, DragOver Person, Click] (the (run both_uploaded empty_page))))) =
     ''An error occurred while generating the image. Please check the console for details.''"
proof -
  let ?ready = "the (run both_uploaded empty_page)"
  let ?s = "the (run [Click, DragOver Person, Click] ?ready)"
  let ?p = "\<lparr>inlineData = None, text_of = Some ''Cannot process''\<rparr>"
  let ?r = "text_response [''Cannot process'']"
  have b: "both_populated ?ready"
    by (simp add: session_defs listener_defs Let_def both_populated_def)
  have n: "run [Click, DragOver Person, Click] ?ready \<noteq> None"
    by simp
  have i: "imagePart ?r = Inr None"
    by (simp add: text_response_def response_defs js_index_def)
  have j: "imagePart (text_response []) = Inr None"
    by (simp add: text_response_def response_defs js_index_def)
  have k: "first_candidate_content partless_response = Some \<lparr>parts = None\<rparr>"
    by (simp add: partless_response_def first_candidate_content_def js_index_def)
  have t: "imagePart ?r = Inr None \<and> first_candidate_parts ?r = Some ([] @ ?p # []) \<and>
      (\<forall>q \<in> set []. text_of q = None \<or> text_of q = Some []) \<and>
      text_of ?p = Some ''Cannot process'' \<and> ''Cannot process'' \<noteq> []"
    using i by (simp add: text_response_def response_defs js_index_def)
  have g: "imagePart (text_response []) = Inr None \<and>
      (\<forall>ps. first_candidate_parts (text_response []) = Some ps \<longrightarrow>
         (\<forall>q \<in> set ps. text_of q = None \<or> text_of q = Some []))"
    using j by (simp add: text_response_def response_defs js_index_def)
  have c: "first_candidate_content partless_response = Some \<lparr>parts = None\<rparr> \<and>
      parts \<lparr>parts = None\<rparr> = None"
    using k by simp
  have u: "(imagePart ?r = Inr None \<or> imagePart ?r = Inl TypeError) \<and>
      both_populated ?ready \<and> (\<forall>e \<in> set [DragOver Person, Click]. \<not> settled_event e) \<and>
      run [DragOver Person, Click] (generate_click ?ready) = Some ?s"
    using b i by simp
  note c4 = C4_no_image_shows_text_or_generic
  from c4 [THEN conjunct1, THEN mp, OF t]
  have m1: "errorContainer_textContent (generate_resume (Fulfilled ?r) ?s) = ''Cannot process''" .
  from c4 [THEN conjunct2, THEN conjunct2, THEN conjunct2, THEN conjunct2, THEN mp, OF u]
  have h1: "resultImage_display (generate_resume (Fulfilled ?r) ?s) = ''none'' \<and>
      downloadButton_display (generate_resume (Fulfilled ?r) ?s) = ''none''" .
  from c4 [THEN conjunct2, THEN conjunct1, THEN mp, OF g]
  have m2: "errorContainer_textContent (generate_resume (Fulfilled (text_response [])) ?s) =
      ''Sorry, I couldn't generate an image. Please try again with different images.''" .
  from c4 [THEN conjunct2, THEN conjunct2, THEN conjunct1, THEN mp, OF c]
  have m3: "errorContainer_textContent (generate_resume (Fulfilled partless_response) ?s) =
      ''An error occurred while generating the image. Please check the console for details.''"
    by blast
  from b n i j k m1 h1 m2 m3 show ?thesis by blast
qed

section \<open>C5: a service call that throws\<close>

text \<open>
  C5, as stated, fails: the message of the \<^verbatim>\<open>catch\<close> block is not the message used for a
  response with neither image nor text. A rejected call shows the one, a response whose
  first candidate has no part shows the other.
\<close>

theorem C5_counterexample:
  "imagePart (text_response []) = Inr None \<and> textPart (text_response []) = Inr None \<and>
   errorContainer_textContent
     (generate_resume (Rejected (JsError ''Failed to fetch'')) empty_page) \<noteq>
   errorContainer_textContent (generate_resume (Fulfilled (text_response [])) empty_page)"
  by (simp add: text_response_def response_defs js_index_def resume_defs displayError_def
      exception_message_def no_image_message_def)

text \<open>
  C5, amended. Whatever the service call throws, the exception is caught and the user is
  shown the fixed message "An error occurred while generating the image. Please check the
  console for details.", the same for every error; the error itself goes to the console and
  nowhere else, and result image and download link are left as they were.
\<close>

theorem C5_exception_shows_fixed_message:
  "errorContainer_textContent (generate_resume (Rejected e) s) =
     ''An error occurred while generating the image. Please check the console for details.'' \<and>
   errorContainer_display (generate_resume (Rejected e) s) = ''block'' \<and>
   console_error (generate_resume (Rejected e) s) = console_error s @ [e] \<and>
   resultImage_src (generate_resume (Rejected e) s) = resultImage_src s \<and>
   resultImage_display (generate_resume (Rejected e) s) = resultImage_display s \<and>
   downloadButton_href (generate_resume (Rejected e) s) = downloadButton_href s \<and>
   downloadButton_display (generate_resume (Rejected e) s) = downloadButton_display s"
  by (simp add: resume_defs displayError_def exception_message_def)

section \<open>C6: finalization\<close>

text \<open>
  C6. However the service call settles (a response with an image, with a text, with
  neither, or an exception) and in whatever state the page then is, the handler ends with
  the busy indicator hidden and the trigger enabled. A click with both slots filled leaves
  one call pending, so its settling is an event of the session, and after it no call of
  this attempt remains pending.
\<close>

theorem C6_finalization_always_runs:
  "loader_display (generate_resume out s) = ''none'' \<and>
   \<not> generateButton_disabled (generate_resume out s) \<and>
   (both_populated s0 \<longrightarrow>
      run [Click, Settled out] s0 = Some (generate_resume out (generate_click s0)) \<and>
      in_flight (generate_resume out (generate_click s0)) = in_flight s0)"
  by (cases out)
     (auto simp: resume_defs displayError_def both_populated_def generate_click_def
        split: option.splits sum.splits)

text \<open>Both uploads, a click, and a response without candidates.\<close>

theorem C6_witness:
  "both_populated (the (run both_uploaded empty_page)) \<and>
   run ([Click, Settled (Fulfilled \<lparr>candidates = None\<rparr>)]) (the (run both_uploaded empty_page))
     \<noteq> None \<and>
   loader_display
     (the (run ([Click, Settled (Fulfilled \<lparr>candidates = None\<rparr>)])
        (the (run both_uploaded empty_page)))) = ''none'' \<and>
   \<not> generateButton_disabled
     (the (run ([Click, Settled (Fulfilled \<lparr>candidates = None\<rparr>)])
        (the (run both_uploaded empty_page))))"
proof -
  let ?ready = "the (run both_uploaded empty_page)"
  let ?out = "Fulfilled \<lparr>candidates = None\<rparr>"
  have b: "both_populated ?ready"
    by (simp add: session_defs listener_defs Let_def both_populated_def)
  from C6_finalization_always_runs [of ?out "generate_click ?ready" ?ready] b
  show ?thesis by simp
qed

section \<open>C7: an upload overwrites its own slot\<close>

text \<open>
  C7. When the encoding of an upload completes, in any state of the page, the slot of
  that upload holds the new payload (the file's type, and the data URL's part after the
  first comma) and the other slot is what it was.
\<close>

theorem C7_upload_overwrites_own_slot_only:
  "personFileData (part_reader_onloadend f Person (Some r) s) =
     Some \<lparr>data = js_index (js_split CHR '','' r) 1, mimeType = type f\<rparr> \<and>
   outfitFileData (part_reader_onloadend f Person (Some r) s) = outfitFileData s \<and>
   outfitFileData (part_reader_onloadend f Outfit (Some r) s) =
     Some \<lparr>data = js_index (js_split CHR '','' r) 1, mimeType = type f\<rparr> \<and>
   personFileData (part_reader_onloadend f Outfit (Some r) s) = personFileData s"
  by (simp add: part_reader_onloadend_def fileToGenerativePart_def reader_onload_resume_def
      updateGenerateButtonState_def)

section \<open>C8: one request per click\<close>

text \<open>
  C8. When the button's listener runs with both slots filled, it hides the error
  container, shows the busy indicator, disables the trigger and issues one request, whose
  parts are the person image, the outfit image and the fixed instruction, in this order.
  The continuation of the handler issues no further request, whatever the outcome: the
  click has produced exactly one call.
\<close>

theorem C8_one_request_per_click:
  assumes "personFileData s = Some person" and "outfitFileData s = Some outfit"
  shows "errorContainer_display (generate_click s) = ''none'' \<and>
         loader_display (generate_click s) = ''block'' \<and>
         generateButton_disabled (generate_click s) \<and>
         generateContent_calls (generate_click s) =
           generateContent_calls s @ [generate_request person outfit] \<and>
         parts (contents (generate_request person outfit)) =
           Some [\<lparr>inlineData = Some person, text_of = None\<rparr>,
                 \<lparr>inlineData = Some outfit, text_of = None\<rparr>,
                 \<lparr>inlineData = None, text_of = Some prompt\<rparr>] \<and>
         in_flight (generate_click s) = Suc (in_flight s) \<and>
         generateContent_calls (generate_resume out (generate_click s)) =
           generateContent_calls (generate_click s) \<and>
         length (generateContent_calls (generate_resume out (generate_click s))) =
           Suc (length (generateContent_calls s))"
proof -
  have click: "generate_click s =
      s\<lparr>errorContainer_display := ''none'', resultsSection_visible := True,
        resultImage_display := ''none'', downloadButton_display := ''none'',
        loader_display := ''block'', generateButton_disabled := True,
        generateContent_calls := generateContent_calls s @ [generate_request person outfit],
        in_flight := Suc (in_flight s)\<rparr>"
    using assms by (simp add: generate_click_def)
  have keep: "generateContent_calls (generate_resume out t) = generateContent_calls t" for t
    by (cases out) (simp_all add: resume_defs displayError_def split: option.splits sum.splits)
  have "parts (contents (generate_request person outfit)) =
      Some [\<lparr>inlineData = Some person, text_of = None\<rparr>,
            \<lparr>inlineData = Some outfit, text_of = None\<rparr>,
            \<lparr>inlineData = None, text_of = Some prompt\<rparr>]"
    by (simp add: generate_request_def)
  with click keep show ?thesis by simp
qed

text \<open>The request issued after the two uploads of the concrete session.\<close>

theorem C8_witness:
  "personFileData (the (run both_uploaded empty_page)) =
     Some \<lparr>data = Some ''QUJD'', mimeType = ''image/png''\<rparr> \<and>
   outfitFileData (the (run both_uploaded empty_page)) =
     Some \<lparr>data = Some ''REVG'', mimeType = ''image/jpeg''\<rparr> \<and>
   generateContent_calls (the (run both_uploaded empty_page)) = [] \<and>
   map (\<lambda>q. parts (contents q))
     (generateContent_calls (generate_click (the (run both_uploaded empty_page)))) =
     [Some
       [\<lparr>inlineData = Some \<lparr>data = Some ''QUJD'', mimeType = ''image/png''\<rparr>, text_of = None\<rparr>,
        \<lparr>inlineData = Some \<lparr>data = Some ''REVG'', mimeType = ''image/jpeg''\<rparr>, text_of = None\<rparr>,
        \<lparr>inlineData = None, text_of = Some prompt\<rparr>]] \<and>
   generateButton_disabled (generate_click (the (run both_uploaded empty_page)))"
proof -
  let ?s = "the (run both_uploaded empty_page)"
  have p: "personFileData ?s = Some \<lparr>data = Some ''QUJD'', mimeType = ''image/png''\<rparr>"
    by (simp add: session_defs listener_defs Let_def)
  have o: "outfitFileData ?s = Some \<lparr>data = Some ''REVG'', mimeType = ''image/jpeg''\<rparr>"
    by (simp add: session_defs listener_defs Let_def)
  have c: "generateContent_calls ?s = []"
    by (simp add: session_defs listener_defs Let_def)
  from C8_one_request_per_click [OF p o] p o c show ?thesis
    by (simp add: generate_request_def)
qed

section \<open>C9: a failed read\<close>

text \<open>
  C9. When a read of an uploaded file fails, whether it is the read started by
  \<^verbatim>\<open>handleFileUpload\<close> or the one started by \<^verbatim>\<open>fileToGenerativePart\<close>, both slots keep their
  values (the slot of the upload is not replaced), the trigger keeps its state, and the
  error container is not touched: nothing is shown to the user.
\<close>

theorem C9_read_failure_is_silent:
  "(step (ReaderError f t) s = Some s' \<longrightarrow>
      personFileData s' = personFileData s \<and> outfitFileData s' = outfitFileData s \<and>
      generateButton_disabled s' = generateButton_disabled s \<and>
      errorContainer_textContent s' = errorContainer_textContent s \<and>
      errorContainer_display s' = errorContainer_display s) \<and>
   (step (PartReaderLoadEnd f t None) s = Some s'' \<longrightarrow>
      personFileData s'' = personFileData s \<and> outfitFileData s'' = outfitFileData s \<and>
      generateButton_disabled s'' = generateButton_disabled s \<and>
      errorContainer_textContent s'' = errorContainer_textContent s \<and>
      errorContainer_display s'' = errorContainer_display s)"
  by (auto simp: part_reader_onloadend_def fileToGenerativePart_def split: if_splits)

text \<open>The outfit's first read fails; or its first read succeeds and the second fails.\<close>

theorem C9_witness:
  "step (ReaderError dress Outfit) (the (run (take 4 both_uploaded) empty_page)) \<noteq> None \<and>
   outfitFileData
     (the (step (ReaderError dress Outfit) (the (run (take 4 both_uploaded) empty_page)))) = None \<and>
   errorContainer_display
     (the (step (ReaderError dress Outfit) (the (run (take 4 both_uploaded) empty_page)))) = [] \<and>
   step (PartReaderLoadEnd dress Outfit None) (the (run (take 5 both_uploaded) empty_page))
     \<noteq> None \<and>
   outfitFileData
     (the (step (PartReaderLoadEnd dress Outfit None)
        (the (run (take 5 both_uploaded) empty_page)))) = None \<and>
   errorContainer_display
     (the (step (PartReaderLoadEnd dress Outfit None)
        (the (run (take 5 both_uploaded) empty_page)))) = []"
proof -
  let ?s4 = "the (run (take 4 both_uploaded) empty_page)"
  let ?s5 = "the (run (take 5 both_uploaded) empty_page)"
  have a: "step (ReaderError dress Outfit) ?s4 \<noteq> None"
    by (simp add: session_defs listener_defs Let_def)
  have b: "step (PartReaderLoadEnd dress Outfit None) ?s5 \<noteq> None"
    by (simp add: session_defs listener_defs Let_def)
  have c: "outfitFileData ?s4 = None \<and> errorContainer_display ?s4 = []"
    by (simp add: session_defs listener_defs Let_def)
  have d: "outfitFileData ?s5 = None \<and> errorContainer_display ?s5 = []"
    by (simp add: session_defs listener_defs Let_def)
  from a have a': "step (ReaderError dress Outfit) ?s4 =
      Some (the (step (ReaderError dress Outfit) ?s4))" by simp
  from b have b': "step (PartReaderLoadEnd dress Outfit None) ?s5 =
      Some (the (step (PartReaderLoadEnd dress Outfit None) ?s5))" by simp
  from C9_read_failure_is_silent [THEN conjunct1, THEN mp, OF a']
  have "outfitFileData (the (step (ReaderError dress Outfit) ?s4)) = outfitFileData ?s4 \<and>
      errorContainer_display (the (step (ReaderError dress Outfit) ?s4)) =
        errorContainer_display ?s4"
    by blast
  with c have e: "outfitFileData (the (step (ReaderError dress Outfit) ?s4)) = None \<and>
      errorContainer_display (the (step (ReaderError dress Outfit) ?s4)) = []"
    by simp
  from C9_read_failure_is_silent [THEN conjunct2, THEN mp, OF b']
  have "outfitFileData (the (step (PartReaderLoadEnd dress Outfit None) ?s5)) =
        outfitFileData ?s5 \<and>
      errorContainer_display (the (step (PartReaderLoadEnd dress Outfit None) ?s5)) =
        errorContainer_display ?s5"
    by blast
  with d have g: "outfitFileData (the (step (PartReaderLoadEnd dress Outfit None) ?s5)) = None \<and>
      errorContainer_display (the (step (PartReaderLoadEnd dress Outfit None) ?s5)) = []"
    by simp
  from a b e g show ?thesis by blast
qed

section \<open>C10: no file, several files\<close>

text \<open>
  C10. \<^verbatim>\<open>handleFileUpload\<close> called with \<^verbatim>\<open>null\<close> returns the page as it is, and so does a
  \<^verbatim>\<open>change\<close> listener whose input holds no file list or an empty one: slots, previews and
  trigger are unchanged. A drop of two or more files starts exactly one read, of the first
  file, for the zone's upload type, and a drop of no file starts none.
\<close>

theorem C10_no_file_is_noop_and_drop_takes_first:
  "handleFileUpload None t s = s \<and>
   ((if t = Person then personUploadInput_files s else outfitUploadInput_files s) = None \<or>
    (if t = Person then personUploadInput_files s else outfitUploadInput_files s) = Some []
      \<longrightarrow> change_listener t s = s) \<and>
   readers (drop_listener t (Some (f # g # fs)) s) = readers s @ [(f, t)] \<and>
   part_readers (drop_listener t (Some (f # g # fs)) s) = part_readers s \<and>
   personFileData (drop_listener t (Some (f # g # fs)) s) = personFileData s \<and>
   outfitFileData (drop_listener t (Some (f # g # fs)) s) = outfitFileData s \<and>
   readers (drop_listener t (Some []) s) = readers s \<and>
   readers (drop_listener t None s) = readers s"
  by (simp add: handleFileUpload_def change_listener_def drop_listener_def js_index_def
      set_borderColor_def set_input_files_def Let_def)

text \<open>An input without files; a drop of the dress and the photo on the outfit zone.\<close>

theorem C10_witness:
  "personUploadInput_files empty_page = None \<and>
   change_listener Person empty_page = empty_page \<and>
   readers (drop_listener Outfit (Some [dress, photo]) empty_page) = [(dress, Outfit)]"
proof -
  have a: "personUploadInput_files empty_page = None" by (simp add: empty_page_def)
  have r: "readers empty_page = []" by (simp add: empty_page_def)
  from C10_no_file_is_noop_and_drop_takes_first [of Person empty_page] a
  have b: "change_listener Person empty_page = empty_page" by simp
  from C10_no_file_is_noop_and_drop_takes_first [of Outfit empty_page dress photo "[]"] r
  have c: "readers (drop_listener Outfit (Some [dress, photo]) empty_page) = [(dress, Outfit)]"
    by simp
  from a b c show ?thesis by blast
qed

end
